theory Spec2Isabelle
  imports Main "HOL-Library.Log_Nat"
begin

section \<open>The RIAN learning platform backend (backend/server.py)\<close>

text \<open>
  A shallow embedding of the request handlers of \<^verbatim>\<open>backend/server.py\<close>. The
  MongoDB database is a record of collections; a collection is the list of its documents
  in natural (insertion) order, so that \<^verbatim>\<open>find_one\<close> is the first match,
  \<^verbatim>\<open>find(...).to_list\<close> is \<open>filter\<close>, \<^verbatim>\<open>count_documents\<close> is its
  length, \<^verbatim>\<open>insert_one\<close> appends and \<^verbatim>\<open>update_one\<close> rewrites the first match.
  Every handler takes the database and returns its result together with the database it
  leaves behind. The values the process draws from its environment (the clock, fresh
  UUIDs, the external chat service) are parameters. Strings are byte sequences (UTF-8).
\<close>

subsection \<open>Timestamps\<close>

text \<open>
  A Python \<^verbatim>\<open>datetime\<close> is either naive (\<^verbatim>\<open>tzinfo is None\<close>) or aware. The
  wall-clock fields are counted in microseconds; an aware value also carries its offset
  from UTC in microseconds.
\<close>

datatype datetime = Naive int | Aware int int

fun tzinfo_is_None :: "datetime \<Rightarrow> bool" where
  "tzinfo_is_None (Naive t) = True"
| "tzinfo_is_None (Aware t off) = False"

text \<open>\<^verbatim>\<open>dt.replace(tzinfo=timezone.utc)\<close>: the same wall-clock fields, read as UTC.\<close>

fun replace_tzinfo_utc :: "datetime \<Rightarrow> datetime" where
  "replace_tzinfo_utc (Naive t) = Aware t 0"
| "replace_tzinfo_utc (Aware t off) = Aware t 0"

text \<open>The instant of an aware value on the UTC time line (of a naive one, its fields).\<close>

fun utc_instant :: "datetime \<Rightarrow> int" where
  "utc_instant (Naive t) = t"
| "utc_instant (Aware t off) = t - off"

text \<open>\<^verbatim>\<open>a < b\<close> on two aware values compares their instants.\<close>

definition datetime_less :: "datetime \<Rightarrow> datetime \<Rightarrow> bool" where
  "datetime_less a b = (utc_instant a < utc_instant b)"

text \<open>\<^verbatim>\<open>datetime.now(timezone.utc)\<close> when the clock reads \<open>now\<close>.\<close>

definition now_utc :: "int \<Rightarrow> datetime" where
  "now_utc now = Aware now 0"

subsection \<open>Double-precision arithmetic\<close>

text \<open>
  Python's \<^verbatim>\<open>float\<close> is IEEE 754 binary64. A finite double is a rational number, and
  every operation returns the exact result rounded to the nearest double, ties to the even
  significand. \<open>round_double\<close> is that rounding: 53 significant bits, least exponent
  \<open>-1022\<close> (below it the spacing stays \<open>2 ^ -1074\<close>). Overflow to infinity is not
  modelled: the operands here are counts of documents and the constant 100.
\<close>

definition round_half_even :: "rat \<Rightarrow> int" where
  "round_half_even x =
     (let f = \<lfloor>x\<rfloor>; r = x - of_int f
      in if r < 1 / 2 then f
         else if 1 / 2 < r then f + 1
         else if even f then f else f + 1)"

definition pow2 :: "int \<Rightarrow> rat" where
  "pow2 e = (if 0 \<le> e then 2 ^ nat e else 1 / 2 ^ nat (- e))"

text \<open>The exponent \<open>e\<close> with \<open>2 ^ e \<le> x < 2 ^ (e + 1)\<close>, for \<open>x > 0\<close>.\<close>

definition binade :: "rat \<Rightarrow> int" where
  "binade x =
     (case quotient_of x of (p, q) \<Rightarrow>
        let e0 = bitlen p - bitlen q
        in if pow2 e0 \<le> x then e0 else e0 - 1)"

definition round_double :: "rat \<Rightarrow> rat" where
  "round_double x =
     (if x = 0 then 0
      else let a = \<bar>x\<bar>; u = pow2 (max (binade a) (- 1022) - 52)
           in sgn x * of_int (round_half_even (a / u)) * u)"

subsection \<open>Errors\<close>

text \<open>
  \<open>HTTPException status detail\<close> is the exception the handlers raise on purpose. The
  other two are Python's own: \<open>TypeError\<close> is what subscripting \<^verbatim>\<open>None\<close> raises,
  \<open>ZeroDivisionError\<close> what \<^verbatim>\<open>/\<close> raises on a zero divisor.
\<close>

datatype error = HTTPException nat string | TypeError string | ZeroDivisionError

definition NoneType_not_subscriptable :: string where
  "NoneType_not_subscriptable =
     [CHR 0x27] @ ''NoneType'' @ [CHR 0x27] @ '' object is not subscriptable''"

text \<open>\<^verbatim>\<open>a / b\<close> on two \<^verbatim>\<open>int\<close>s: the quotient, correctly rounded to a double.\<close>

definition int_truediv :: "int \<Rightarrow> int \<Rightarrow> error + rat" where
  "int_truediv a b =
     (if b = 0 then Inl ZeroDivisionError else Inr (round_double (of_int a / of_int b)))"

text \<open>\<^verbatim>\<open>x * n\<close> on a \<^verbatim>\<open>float\<close> and an \<^verbatim>\<open>int\<close> that is itself a double.\<close>

definition float_mul :: "rat \<Rightarrow> int \<Rightarrow> rat" where
  "float_mul x n = round_double (x * of_int n)"

subsection \<open>Documents\<close>

record user =
  u_id :: string
  u_email :: string
  u_name :: string
  u_picture :: "string option"
  u_role :: string
  u_created_at :: datetime
  u_profile_completed :: bool

record user_session =
  s_user_id :: string
  s_session_token :: string
  s_expires_at :: datetime
  s_created_at :: datetime

record competence =
  c_id :: string
  c_number :: int
  c_title :: string
  c_description :: string
  c_duration_hours :: int
  c_units :: int
  c_learning_objectives :: "string list"
  c_evaluation_method :: string
  c_evaluation_description :: string
  c_evaluation_criteria :: "string list"
  c_success_threshold :: rat
  c_created_at :: datetime

record user_progress =
  p_id :: string
  p_user_id :: string
  p_competence_id :: string
  p_status :: string
  p_current_score :: rat
  p_quiz_attempts :: int
  p_assignment_submitted :: bool
  p_assignment_score :: "rat option"
  p_exam_taken :: bool
  p_exam_score :: "rat option"
  p_certified :: bool
  p_started_at :: "datetime option"
  p_completed_at :: "datetime option"
  p_last_activity :: datetime

record quiz_question =
  q_id :: string
  q_competence_id :: string
  q_question :: string
  q_options :: "string list"
  q_correct_answer :: int
  q_explanation :: "string option"

record quiz_attempt =
  a_id :: string
  a_user_id :: string
  a_competence_id :: string
  a_answers :: "int list"
  a_score :: rat
  a_passed :: bool
  a_attempt_number :: int
  a_created_at :: datetime

record chat_message =
  m_role :: string
  m_content :: string
  m_timestamp :: string

record ai_workshop_session =
  w_id :: string
  w_user_id :: string
  w_competence_id :: string
  w_session_type :: string
  w_status :: string
  w_messages :: "chat_message list"
  w_created_at :: datetime

record certificate =
  cert_id :: string
  cert_user_id :: string
  cert_competence_id :: string
  cert_certificate_number :: string
  cert_issued_date :: datetime
  cert_score :: rat
  cert_valid :: bool

record db =
  users :: "user list"
  user_sessions :: "user_session list"
  competences :: "competence list"
  user_progress :: "user_progress list"
  quiz_questions :: "quiz_question list"
  quiz_attempts :: "quiz_attempt list"
  ai_workshop_sessions :: "ai_workshop_session list"
  certificates :: "certificate list"

subsection \<open>Collection operations\<close>

definition find_one :: "('a \<Rightarrow> bool) \<Rightarrow> 'a list \<Rightarrow> 'a option" where
  "find_one f docs = find f docs"

definition find_all :: "('a \<Rightarrow> bool) \<Rightarrow> 'a list \<Rightarrow> 'a list" where
  "find_all f docs = filter f docs"

definition count_documents :: "('a \<Rightarrow> bool) \<Rightarrow> 'a list \<Rightarrow> int" where
  "count_documents f docs = int (length (filter f docs))"

definition insert_one :: "'a \<Rightarrow> 'a list \<Rightarrow> 'a list" where
  "insert_one doc docs = docs @ [doc]"

text \<open>\<^verbatim>\<open>update_one(filter, {"$set": ...})\<close> without upsert: the first match, if any.\<close>

fun update_one :: "('a \<Rightarrow> bool) \<Rightarrow> ('a \<Rightarrow> 'a) \<Rightarrow> 'a list \<Rightarrow> 'a list" where
  "update_one f upd [] = []"
| "update_one f upd (doc # docs) =
     (if f doc then upd doc # docs else doc # update_one f upd docs)"

subsection \<open>Authentication: get\_current\_user\<close>

record request =
  cookies :: "string \<rightharpoonup> string"

record http_authorization_credentials =
  scheme :: string
  credentials :: string

text \<open>
  The session token is taken from the cookie when the request has one, else from the
  bearer credentials. \<^verbatim>\<open>if not session_token\<close> rejects both \<^verbatim>\<open>None\<close> and the
  empty string.
\<close>

definition presented_token ::
  "request \<Rightarrow> http_authorization_credentials option \<Rightarrow> string option" where
  "presented_token req creds =
     (case cookies req ''session_token'' of
        Some c \<Rightarrow> Some c
      | None \<Rightarrow> (case creds of Some cr \<Rightarrow> Some (credentials cr) | None \<Rightarrow> None))"

definition get_current_user ::
  "db \<Rightarrow> int \<Rightarrow> request \<Rightarrow> http_authorization_credentials option \<Rightarrow> user option \<times> db" where
  "get_current_user d now req creds =
     (case presented_token req creds of
        None \<Rightarrow> (None, d)
      | Some session_token \<Rightarrow>
          if session_token = [] then (None, d)
          else
            (case find_one (\<lambda>s. s_session_token s = session_token) (user_sessions d) of
               None \<Rightarrow> (None, d)
             | Some session_data \<Rightarrow>
                 let expires_at = s_expires_at session_data;
                     expires_at = (if tzinfo_is_None expires_at
                                   then replace_tzinfo_utc expires_at else expires_at)
                 in if datetime_less expires_at (now_utc now) then (None, d)
                    else (find_one (\<lambda>u. u_id u = s_user_id session_data) (users d), d)))"

subsection \<open>Progress: start\_competence\<close>

definition not_authenticated :: error where
  "not_authenticated = HTTPException 401 ''Not authenticated''"

text \<open>
  \<open>uuid\<close> is the fresh identifier of the new row, \<open>now_started\<close> the clock when
  \<^verbatim>\<open>started_at\<close> is computed and \<open>now_activity\<close> the clock when the default of
  \<^verbatim>\<open>last_activity\<close> is.
\<close>

definition start_competence ::
  "db \<Rightarrow> string \<Rightarrow> int \<Rightarrow> int \<Rightarrow> string \<Rightarrow> user option \<Rightarrow> (error + user_progress) \<times> db" where
  "start_competence d uuid now_started now_activity competence_id usr =
     (case usr of
        None \<Rightarrow> (Inl not_authenticated, d)
      | Some u \<Rightarrow>
          (case find_one (\<lambda>c. c_id c = competence_id) (competences d) of
             None \<Rightarrow> (Inl (HTTPException 404 ''Competence not found''), d)
           | Some competence \<Rightarrow>
               (case find_one (\<lambda>p. p_user_id p = u_id u \<and> p_competence_id p = competence_id)
                       (user_progress d) of
                  Some existing_progress \<Rightarrow> (Inr existing_progress, d)
                | None \<Rightarrow>
                    let progress =
                          \<lparr>p_id = uuid, p_user_id = u_id u, p_competence_id = competence_id,
                           p_status = ''in_progress'', p_current_score = 0, p_quiz_attempts = 0,
                           p_assignment_submitted = False, p_assignment_score = None,
                           p_exam_taken = False, p_exam_score = None, p_certified = False,
                           p_started_at = Some (now_utc now_started), p_completed_at = None,
                           p_last_activity = now_utc now_activity\<rparr>
                    in (Inr progress,
                        d\<lparr>user_progress := insert_one progress (user_progress d)\<rparr>))))"

subsection \<open>Quiz: get\_quiz\_questions and submit\_quiz\<close>

text \<open>A JSON object of the response is the list of its keys and values, in order.\<close>

datatype json_value = JString string | JStrings "string list"

definition redact :: "quiz_question \<Rightarrow> (string \<times> json_value) list" where
  "redact q =
     [(''id'', JString (q_id q)),
      (''question'', JString (q_question q)),
      (''options'', JStrings (q_options q))]"

definition get_quiz_questions ::
  "db \<Rightarrow> string \<Rightarrow> user option \<Rightarrow> error + (string \<times> json_value) list list" where
  "get_quiz_questions d competence_id usr =
     (case usr of
        None \<Rightarrow> Inl not_authenticated
      | Some u \<Rightarrow>
          let questions = find_all (\<lambda>q. q_competence_id q = competence_id) (quiz_questions d)
          in Inr (map redact questions))"

text \<open>
  The scoring loop \<^verbatim>\<open>for i, question in enumerate(questions)\<close>: \<open>i\<close> is the index
  of the question at the head, \<open>correct_answers\<close> the counter.
\<close>

fun score_loop :: "nat \<Rightarrow> quiz_question list \<Rightarrow> int list \<Rightarrow> int \<Rightarrow> int" where
  "score_loop i [] answers correct_answers = correct_answers"
| "score_loop i (question # rest) answers correct_answers =
     score_loop (Suc i) rest answers
       (if i < length answers \<and> answers ! i = q_correct_answer question
        then correct_answers + 1 else correct_answers)"

record quiz_result =
  score :: rat
  passed :: bool
  correct_answers :: int
  total_questions :: int

text \<open>
  \<open>uuid\<close> and \<open>now_attempt\<close> are the identifier and creation time of the attempt row,
  \<open>now_activity\<close> the clock when the progress row is updated.
\<close>

definition submit_quiz ::
  "db \<Rightarrow> string \<Rightarrow> int \<Rightarrow> int \<Rightarrow> string \<Rightarrow> int list \<Rightarrow> user option
     \<Rightarrow> (error + quiz_result) \<times> db" where
  "submit_quiz d uuid now_attempt now_activity competence_id answers usr =
     (case usr of
        None \<Rightarrow> (Inl not_authenticated, d)
      | Some u \<Rightarrow>
          let questions = find_all (\<lambda>q. q_competence_id q = competence_id) (quiz_questions d)
          in if questions = [] then (Inl (HTTPException 404 ''Quiz not found''), d)
             else
               let n_correct = score_loop 0 questions answers 0
               in (case int_truediv n_correct (int (length questions)) of
                     Inl e \<Rightarrow> (Inl e, d)
                   | Inr ratio \<Rightarrow>
                       let sc = float_mul ratio 100
                       in (case find_one (\<lambda>c. c_id c = competence_id) (competences d) of
                             None \<Rightarrow> (Inl (TypeError NoneType_not_subscriptable), d)
                           | Some competence \<Rightarrow>
                               let pass = (c_success_threshold competence \<le> sc);
                                   existing_attempts =
                                     count_documents
                                       (\<lambda>a. a_user_id a = u_id u \<and> a_competence_id a = competence_id)
                                       (quiz_attempts d);
                                   attempt =
                                     \<lparr>a_id = uuid, a_user_id = u_id u,
                                      a_competence_id = competence_id, a_answers = answers,
                                      a_score = sc, a_passed = pass,
                                      a_attempt_number = existing_attempts + 1,
                                      a_created_at = now_utc now_attempt\<rparr>;
                                   d1 = d\<lparr>quiz_attempts := insert_one attempt (quiz_attempts d)\<rparr>;
                                   d2 = d1\<lparr>user_progress :=
                                          update_one
                                            (\<lambda>p. p_user_id p = u_id u \<and> p_competence_id p = competence_id)
                                            (\<lambda>p. p\<lparr>p_current_score := sc,
                                                    p_quiz_attempts := existing_attempts + 1,
                                                    p_last_activity := now_utc now_activity\<rparr>)
                                            (user_progress d1)\<rparr>
                               in (Inr \<lparr>score = sc, passed = pass,
                                        correct_answers = n_correct,
                                        total_questions = int (length questions)\<rparr>, d2))))"

subsection \<open>AI workshop: chat\_with\_ai\<close>

text \<open>
  The external chat service: an \<open>llm_chat\<close> is what \<^verbatim>\<open>LlmChat(...).with_model(...)\<close>
  is built from, and \<open>send_message chat text\<close> is the reply, or \<open>Inl\<close> the text of the
  exception it raises. The handler's third result lists the calls made to the service.
\<close>

record llm_chat =
  api_key :: "string option"
  session_id :: string
  system_message :: string
  provider :: string
  model :: string

fun str_join :: "string \<Rightarrow> string list \<Rightarrow> string" where
  "str_join sep [] = []"
| "str_join sep [x] = x"
| "str_join sep (x # y # ys) = x @ sep @ str_join sep (y # ys)"

definition mentor_prompt :: "string \<Rightarrow> string list \<Rightarrow> string" where
  "mentor_prompt title objectives =
     (
     ''Vous '' @ [CHR 0xC3, CHR 0xAA] @ ''tes un mentor p'' @ [CHR 0xC3, CHR 0xA9] @
     ''dagogique bienveillant sp'' @ [CHR 0xC3, CHR 0xA9] @ ''cialis'' @ [CHR 0xC3, CHR 0xA9] @
     '' dans l'' @ [CHR 0x27] @ ''alphab'' @ [CHR 0xC3, CHR 0xA9] @ ''tisation num'' @
     [CHR 0xC3, CHR 0xA9] @ ''rique. '' @ [CHR 0x0A] @
     ''            Vous aidez un apprenant dans le module: ''
     ) @ title @ (
     ''.'' @ [CHR 0x0A] @ ''            '' @ [CHR 0x0A] @ ''            Objectifs du module: ''
     ) @ str_join '', '' objectives @ (
     [CHR 0x0A] @ ''            '' @ [CHR 0x0A] @ ''            Votre r'' @
     [CHR 0xC3, CHR 0xB4] @ ''le:'' @ [CHR 0x0A] @ ''            - '' @ [CHR 0xC3, CHR 0x8A] @
     ''tre encourageant et patient'' @ [CHR 0x0A] @
     ''            - Expliquer les concepts simplement'' @ [CHR 0x0A] @
     ''            - Donner des exemples pratiques'' @ [CHR 0x0A] @
     ''            - Poser des questions pour v'' @ [CHR 0xC3, CHR 0xA9] @
     ''rifier la compr'' @ [CHR 0xC3, CHR 0xA9] @ ''hension'' @ [CHR 0x0A] @
     ''            - Adapter votre niveau '' @ [CHR 0xC3, CHR 0xA0] @ '' celui de l'' @
     [CHR 0x27] @ ''apprenant'' @ [CHR 0x0A] @ ''            '' @ [CHR 0x0A] @
     ''            R'' @ [CHR 0xC3, CHR 0xA9] @ ''pondez toujours en fran'' @
     [CHR 0xC3, CHR 0xA7] @ ''ais et de mani'' @ [CHR 0xC3, CHR 0xA8] @ ''re bienveillante.''
     )"

definition ai_service_error :: "string \<Rightarrow> error" where
  "ai_service_error msg = HTTPException 500 (''AI service error: '' @ msg)"

text \<open>
  \<open>key\<close> is the value of \<^verbatim>\<open>EMERGENT_LLM_KEY\<close>; \<open>ts_user\<close> and \<open>ts_assistant\<close> are the
  ISO timestamps of the two transcript entries.
\<close>

definition chat_with_ai ::
  "(llm_chat \<Rightarrow> string \<Rightarrow> string + string) \<Rightarrow> string option \<Rightarrow> string \<Rightarrow> string \<Rightarrow>
   db \<Rightarrow> string \<Rightarrow> string \<Rightarrow> user option
     \<Rightarrow> (error + string) \<times> db \<times> (llm_chat \<times> string) list" where
  "chat_with_ai send_message key ts_user ts_assistant d sid message usr =
     (case usr of
        None \<Rightarrow> (Inl not_authenticated, d, [])
      | Some u \<Rightarrow>
          (case find_one (\<lambda>s. w_id s = sid \<and> w_user_id s = u_id u) (ai_workshop_sessions d) of
             None \<Rightarrow> (Inl (HTTPException 404 ''Workshop session not found''), d, [])
           | Some session_data \<Rightarrow>
               (case find_one (\<lambda>c. c_id c = w_competence_id session_data) (competences d) of
                  None \<Rightarrow> (Inl (ai_service_error NoneType_not_subscriptable), d, [])
                | Some competence \<Rightarrow>
                    let chat = \<lparr>api_key = key, session_id = sid,
                                system_message =
                                  mentor_prompt (c_title competence) (c_learning_objectives competence),
                                provider = ''openai'', model = ''gpt-4o-mini''\<rparr>
                    in (case send_message chat message of
                          Inl e \<Rightarrow> (Inl (ai_service_error e), d, [(chat, message)])
                        | Inr response \<Rightarrow>
                            let messages =
                                  w_messages session_data @
                                    [\<lparr>m_role = ''user'', m_content = message,
                                      m_timestamp = ts_user\<rparr>,
                                     \<lparr>m_role = ''assistant'', m_content = response,
                                      m_timestamp = ts_assistant\<rparr>];
                                d' = d\<lparr>ai_workshop_sessions :=
                                         update_one (\<lambda>s. w_id s = sid)
                                           (\<lambda>s. s\<lparr>w_messages := messages\<rparr>)
                                           (ai_workshop_sessions d)\<rparr>
                            in (Inr response, d', [(chat, message)])))))"

subsection \<open>Dashboard: get\_dashboard\<close>

record dashboard =
  dash_user :: user
  overall_progress :: rat
  total_competences :: int
  completed_competences :: int
  in_progress_competences :: int
  certificates_earned :: int
  progress_list :: "user_progress list"
  dash_certificates :: "certificate list"

definition get_dashboard :: "db \<Rightarrow> user option \<Rightarrow> error + dashboard" where
  "get_dashboard d usr =
     (case usr of
        None \<Rightarrow> Inl not_authenticated
      | Some u \<Rightarrow>
          let progress = find_all (\<lambda>p. p_user_id p = u_id u) (user_progress d);
              certs = find_all (\<lambda>c. cert_user_id c = u_id u) (certificates d);
              total = count_documents (\<lambda>c. True) (competences d);
              completed = int (length (filter (\<lambda>p. p_status p = ''completed'') progress));
              in_progress = int (length (filter (\<lambda>p. p_status p = ''in_progress'') progress))
          in (case (if 0 < total
                    then (case int_truediv completed total of
                            Inl e \<Rightarrow> Inl e
                          | Inr ratio \<Rightarrow> Inr (float_mul ratio 100))
                    else Inr 0) of
                Inl e \<Rightarrow> Inl e
              | Inr overall \<Rightarrow>
                  Inr \<lparr>dash_user = u, overall_progress = overall, total_competences = total,
                       completed_competences = completed,
                       in_progress_competences = in_progress,
                       certificates_earned = int (length certs),
                       progress_list = progress, dash_certificates = certs\<rparr>))"

section \<open>Example data\<close>

text \<open>Small databases and requests on which the theorems below are instantiated.\<close>

definition alice :: user where
  "alice = \<lparr>u_id = ''u1'', u_email = ''alice@example.org'', u_name = ''Alice'',
            u_picture = None, u_role = ''learner'', u_created_at = Aware 0 0,
            u_profile_completed = False\<rparr>"

definition alice_session :: user_session where
  "alice_session = \<lparr>s_user_id = ''u1'', s_session_token = ''tok1'',
                    s_expires_at = Naive 500, s_created_at = Naive 0\<rparr>"

definition ghost_session :: user_session where
  "ghost_session = \<lparr>s_user_id = ''u9'', s_session_token = ''tok9'',
                    s_expires_at = Naive 500, s_created_at = Naive 0\<rparr>"

definition empty_db :: db where
  "empty_db = \<lparr>users = [], user_sessions = [], competences = [], user_progress = [],
               quiz_questions = [], quiz_attempts = [], ai_workshop_sessions = [],
               certificates = []\<rparr>"

definition auth_db :: db where
  "auth_db = empty_db\<lparr>users := [alice], user_sessions := [alice_session, ghost_session]\<rparr>"

definition cookie_request :: "string \<Rightarrow> request" where
  "cookie_request t = \<lparr>cookies = [''session_token'' \<mapsto> t]\<rparr>"

definition plain_request :: request where
  "plain_request = \<lparr>cookies = Map.empty\<rparr>"

definition bearer :: "string \<Rightarrow> http_authorization_credentials" where
  "bearer t = \<lparr>scheme = ''Bearer'', credentials = t\<rparr>"


definition bob :: user where
  "bob = \<lparr>u_id = ''u2'', u_email = ''bob@example.org'', u_name = ''Bob'',
          u_picture = None, u_role = ''learner'', u_created_at = Aware 0 0,
          u_profile_completed = False\<rparr>"

definition competence1 :: competence where
  "competence1 = \<lparr>c_id = ''c1'', c_number = 1, c_title = ''Module 1'',
                  c_description = ''First module'', c_duration_hours = 15, c_units = 1,
                  c_learning_objectives = [''Read'', ''Write''],
                  c_evaluation_method = ''Quiz'', c_evaluation_description = ''A quiz'',
                  c_evaluation_criteria = [''Accuracy''], c_success_threshold = 50,
                  c_created_at = Naive 0\<rparr>"

definition question :: "string \<Rightarrow> string \<Rightarrow> int \<Rightarrow> quiz_question" where
  "question qid cid correct =
     \<lparr>q_id = qid, q_competence_id = cid, q_question = ''Which one?'',
      q_options = [''a'', ''b'', ''c'', ''d''], q_correct_answer = correct,
      q_explanation = None\<rparr>"

definition quiz_db :: db where
  "quiz_db = empty_db\<lparr>users := [alice, bob], competences := [competence1],
               quiz_questions := [question ''q1'' ''c1'' 1, question ''q2'' ''c1'' 1,
                                  question ''q0'' ''c2'' 3, question ''q3'' ''c1'' 2]\<rparr>"

definition alice_progress :: user_progress where
  "alice_progress =
     \<lparr>p_id = ''p1'', p_user_id = ''u1'', p_competence_id = ''c1'', p_status = ''in_progress'',
      p_current_score = 0, p_quiz_attempts = 0, p_assignment_submitted = False,
      p_assignment_score = None, p_exam_taken = False, p_exam_score = None,
      p_certified = False, p_started_at = Some (Aware 7 0), p_completed_at = None,
      p_last_activity = Aware 7 0\<rparr>"

definition bob_progress :: user_progress where
  "bob_progress = alice_progress\<lparr>p_id := ''p2'', p_user_id := ''u2''\<rparr>"

definition progress_db :: db where
  "progress_db = quiz_db\<lparr>user_progress := [bob_progress, alice_progress]\<rparr>"

definition bob_workshop :: ai_workshop_session where
  "bob_workshop = \<lparr>w_id = ''w1'', w_user_id = ''u2'', w_competence_id = ''c1'',
                   w_session_type = ''individual'', w_status = ''active'', w_messages = [],
                   w_created_at = Aware 3 0\<rparr>"

definition workshop_db :: db where
  "workshop_db = quiz_db\<lparr>ai_workshop_sessions := [bob_workshop]\<rparr>"

definition echo_service :: "llm_chat \<Rightarrow> string \<Rightarrow> string + string" where
  "echo_service chat text = Inr (''Bonjour: '' @ text)"

definition orphan_db :: db where
  "orphan_db = empty_db\<lparr>users := [alice], quiz_questions := [question ''q1'' ''c9'' 0]\<rparr>"


definition twenty_db :: db where
  "twenty_db = empty_db\<lparr>users := [alice], competences := [competence1],
                 quiz_questions := replicate 20 (question ''q'' ''c1'' 1)\<rparr>"

definition completed_progress :: user_progress where
  "completed_progress = alice_progress\<lparr>p_status := ''completed''\<rparr>"

definition catalog_db :: db where
  "catalog_db = empty_db\<lparr>users := [alice], competences := replicate 20 competence1,
                  user_progress :=
                    replicate 11 completed_progress @ [alice_progress, bob_progress]\<rparr>"

section \<open>Authentication\<close>

lemmas auth_example_defs = alice_def alice_session_def ghost_session_def empty_db_def
  auth_db_def cookie_request_def plain_request_def bearer_def


lemma normalized_instant:
  "utc_instant (if tzinfo_is_None e then replace_tzinfo_utc e else e) = utc_instant e"
  by (cases e) simp_all

lemma find_None_iff_image: "find (\<lambda>u. f u = k) xs = None \<longleftrightarrow> k \<notin> f ` set xs"
  by (auto simp: find_None_iff)

text \<open>The resolution without its local bindings; the database comes back as it was.\<close>

lemma get_current_user_unfold:
  "get_current_user d now req creds =
     ((case presented_token req creds of
         None \<Rightarrow> None
       | Some tok \<Rightarrow>
           if tok = [] then None
           else (case find_one (\<lambda>s. s_session_token s = tok) (user_sessions d) of
                   None \<Rightarrow> None
                 | Some sess \<Rightarrow>
                     if utc_instant (s_expires_at sess) < now then None
                     else find_one (\<lambda>u. u_id u = s_user_id sess) (users d))), d)"
  by (simp add: get_current_user_def datetime_less_def now_utc_def Let_def normalized_instant
           split: option.splits)







text \<open>
  Claim C6. A token presented only as the \<^verbatim>\<open>session_token\<close> cookie and the same token
  presented only as bearer credentials resolve to the same result in every database, and
  when the request has the cookie, bearer credentials sent with it change nothing: the
  answer is the resolution of the cookie token, that is, the user of the first session row
  with that token, provided the token is not empty, the row exists and has not expired.
\<close>

theorem credential_channel_equivalence:
  "cookies rc ''session_token'' = Some t \<Longrightarrow> cookies rb ''session_token'' = None \<Longrightarrow>
   credentials cr = t \<Longrightarrow>
     get_current_user d now rc None = get_current_user d now rb (Some cr) \<and>
     get_current_user d now rc (Some cr') = get_current_user d now rc None \<and>
     get_current_user d now rc (Some cr') =
       ((if t = [] then None
         else (case find_one (\<lambda>s. s_session_token s = t) (user_sessions d) of
                 None \<Rightarrow> None
               | Some sess \<Rightarrow>
                   if utc_instant (s_expires_at sess) < now then None
                   else find_one (\<lambda>u. u_id u = s_user_id sess) (users d))), d)"
  by (simp add: get_current_user_unfold presented_token_def)

theorem credential_channel_equivalence_witness:
  "get_current_user auth_db 100 (cookie_request ''tok1'') None = (Some alice, auth_db) \<and>
   get_current_user auth_db 100 plain_request (Some (bearer ''tok1'')) = (Some alice, auth_db) \<and>
   get_current_user auth_db 100 (cookie_request ''tok1'') (Some (bearer ''nope''))
     = (Some alice, auth_db) \<and>
   get_current_user auth_db 100 (cookie_request ''nope'') None = (None, auth_db) \<and>
   get_current_user auth_db 100 plain_request (Some (bearer ''nope'')) = (None, auth_db) \<and>
   get_current_user auth_db 100 (cookie_request ''nope'') (Some (bearer ''tok1''))
     = (None, auth_db)"
proof -
  have b: "cookies plain_request ''session_token'' = None"
    by (simp add: plain_request_def)
  have c: "cookies (cookie_request ''tok1'') ''session_token'' = Some ''tok1''"
    by (simp add: cookie_request_def)
  have k: "credentials (bearer ''tok1'') = ''tok1''"
    by (simp add: bearer_def)
  have c': "cookies (cookie_request ''nope'') ''session_token'' = Some ''nope''"
    by (simp add: cookie_request_def)
  have k': "credentials (bearer ''nope'') = ''nope''"
    by (simp add: bearer_def)
  have valid: "find_one (\<lambda>s. s_session_token s = ''tok1'') (user_sessions auth_db)
                 = Some alice_session"
    by (simp add: find_one_def auth_example_defs)
  have owner: "find_one (\<lambda>u. u_id u = s_user_id alice_session) (users auth_db) = Some alice"
    by (simp add: find_one_def auth_example_defs)
  have fresh: "\<not> utc_instant (s_expires_at alice_session) < 100"
    by (simp add: alice_session_def)
  have unknown: "find_one (\<lambda>s. s_session_token s = ''nope'') (user_sessions auth_db) = None"
    by (simp add: find_one_def auth_example_defs)
  note known = credential_channel_equivalence
                 [OF c b k, where d = auth_db and now = 100 and cr' = "bearer ''nope''"]
  note other = credential_channel_equivalence
                 [OF c' b k', where d = auth_db and now = 100 and cr' = "bearer ''tok1''"]
  from known [THEN conjunct2, THEN conjunct2]
  have both: "get_current_user auth_db 100 (cookie_request ''tok1'') (Some (bearer ''nope''))
                = (Some alice, auth_db)"
    by (simp add: valid owner fresh)
  with known [THEN conjunct2, THEN conjunct1]
  have cookie: "get_current_user auth_db 100 (cookie_request ''tok1'') None
                  = (Some alice, auth_db)"
    by (simp only:)
  with known [THEN conjunct1]
  have header: "get_current_user auth_db 100 plain_request (Some (bearer ''tok1''))
                  = (Some alice, auth_db)"
    by (simp only:)
  from other [THEN conjunct2, THEN conjunct2]
  have both': "get_current_user auth_db 100 (cookie_request ''nope'') (Some (bearer ''tok1''))
                 = (None, auth_db)"
    by (simp add: unknown)
  with other [THEN conjunct2, THEN conjunct1]
  have cookie': "get_current_user auth_db 100 (cookie_request ''nope'') None = (None, auth_db)"
    by (simp only:)
  with other [THEN conjunct1]
  have header': "get_current_user auth_db 100 plain_request (Some (bearer ''nope''))
                   = (None, auth_db)"
    by (simp only:)
  from cookie header both cookie' header' both' show ?thesis
    by (intro conjI)
qed

text \<open>
  Claim C10. When the presented token has a session row that has not expired and no user
  row has the user id of that row, resolution returns no user and leaves the database as
  it was: the same answer as for a token that no session row has.
\<close>

theorem dangling_session_unauthenticated:
  "presented_token req creds = Some tok \<Longrightarrow> tok \<noteq> [] \<Longrightarrow>
   find_one (\<lambda>s. s_session_token s = tok) (user_sessions d) = Some sess \<Longrightarrow>
   now \<le> utc_instant (s_expires_at sess) \<Longrightarrow>
   s_user_id sess \<notin> u_id ` set (users d) \<Longrightarrow>
     get_current_user d now req creds = (None, d) \<and>
     fst (get_current_user d now req creds)
       = fst (get_current_user (d\<lparr>user_sessions := []\<rparr>) now req creds)"
  by (simp add: get_current_user_unfold find_one_def find_None_iff_image)

theorem dangling_session_unauthenticated_witness:
  "get_current_user auth_db 100 (cookie_request ''tok9'') None = (None, auth_db)"
proof -
  have 1: "presented_token (cookie_request ''tok9'') None = Some ''tok9''"
    by (simp add: presented_token_def cookie_request_def)
  have 2: "''tok9'' \<noteq> []" by simp
  have 3: "find_one (\<lambda>s. s_session_token s = ''tok9'') (user_sessions auth_db)
             = Some ghost_session"
    by (simp add: find_one_def auth_example_defs)
  have 4: "100 \<le> utc_instant (s_expires_at ghost_session)"
    by (simp add: ghost_session_def)
  have 5: "s_user_id ghost_session \<notin> u_id ` set (users auth_db)"
    by (simp add: auth_example_defs)
  from dangling_session_unauthenticated [OF 1 2 3 4 5] show ?thesis by simp
qed


section \<open>Collections\<close>

lemmas quiz_example_defs = alice_def bob_def competence1_def question_def quiz_db_def
  empty_db_def

lemmas more_example_defs = alice_progress_def bob_progress_def progress_db_def
  bob_workshop_def workshop_db_def echo_service_def orphan_db_def

lemma find_snoc:
  "find f (xs @ [x]) = (case find f xs of Some y \<Rightarrow> Some y | None \<Rightarrow> if f x then Some x else None)"
  by (induction xs) simp_all

lemma find_conj_None: "(\<forall>x\<in>set xs. \<not> f x) \<Longrightarrow> find f xs = None"
  by (simp add: find_None_iff)

lemma length_update_one [simp]: "length (update_one f upd xs) = length xs"
  by (induction xs) simp_all

lemma update_one_nth:
  "i < length xs \<Longrightarrow>
     update_one f upd xs ! i = xs ! i \<or> (f (xs ! i) \<and> update_one f upd xs ! i = upd (xs ! i))"
proof (induction xs arbitrary: i)
  case Nil
  then show ?case by simp
next
  case (Cons x xs)
  then show ?case by (cases i) auto
qed

lemma update_one_no_match: "(\<forall>x\<in>set xs. \<not> f x) \<Longrightarrow> update_one f upd xs = xs"
  by (induction xs) simp_all


section \<open>Starting a competence\<close>

text \<open>
  Claim C5. For a user and the id of an existing competence: when the user already has a
  progress row for that competence, \<open>start_competence\<close> returns the first such row and
  leaves the database as it was; when there is none, it returns a new row for the pair
  with status \<^verbatim>\<open>in_progress\<close> and \<^verbatim>\<open>started_at\<close> the current time, and appends
  it to the progress collection. In both cases a second call, whatever its clock and
  fresh identifier, returns the same row and the same database as the first, so
  \<^verbatim>\<open>started_at\<close> is not reset.
\<close>

theorem start_competence_idempotent:
  assumes "find_one (\<lambda>c. c_id c = cid) (competences d) = Some c"
  shows "(case find_one (\<lambda>p. p_user_id p = u_id u \<and> p_competence_id p = cid) (user_progress d) of
            Some p \<Rightarrow> start_competence d ida ta tb cid (Some u) = (Inr p, d)
          | None \<Rightarrow>
              (\<exists>p. start_competence d ida ta tb cid (Some u)
                      = (Inr p, d\<lparr>user_progress := user_progress d @ [p]\<rparr>) \<and>
                   p_user_id p = u_id u \<and> p_competence_id p = cid \<and>
                   p_status p = ''in_progress'' \<and> p_started_at p = Some (now_utc ta))) \<and>
         start_competence (snd (start_competence d ida ta tb cid (Some u))) idb tc td cid (Some u)
           = start_competence d ida ta tb cid (Some u)"
proof (cases "find_one (\<lambda>p. p_user_id p = u_id u \<and> p_competence_id p = cid) (user_progress d)")
  case None
  then have "find (\<lambda>p. p_user_id p = u_id u \<and> p_competence_id p = cid) (user_progress d) = None"
    by (simp add: find_one_def)
  with assms None show ?thesis
    by (simp add: start_competence_def insert_one_def find_one_def Let_def find_snoc)
next
  case (Some p)
  with assms show ?thesis
    by (simp add: start_competence_def)
qed

theorem start_competence_idempotent_witness:
  "start_competence progress_db ''p3'' 20 21 ''c1'' (Some alice) = (Inr alice_progress, progress_db) \<and>
   fst (start_competence quiz_db ''p3'' 20 21 ''c1'' (Some alice))
     = fst (start_competence (snd (start_competence quiz_db ''p3'' 20 21 ''c1'' (Some alice)))
              ''p4'' 30 31 ''c1'' (Some alice))"
proof -
  have c: "find_one (\<lambda>c. c_id c = ''c1'') (competences progress_db) = Some competence1"
    by (simp add: find_one_def quiz_example_defs more_example_defs)
  have c': "find_one (\<lambda>c. c_id c = ''c1'') (competences quiz_db) = Some competence1"
    by (simp add: find_one_def quiz_example_defs more_example_defs)
  have p: "find_one (\<lambda>p. p_user_id p = u_id alice \<and> p_competence_id p = ''c1'')
             (user_progress progress_db) = Some alice_progress"
    by (simp add: find_one_def quiz_example_defs more_example_defs)
  from start_competence_idempotent [OF c, where u = alice and ida = "''p3''" and ta = 20 and tb = 21
             and idb = "''p4''" and tc = 30 and td = 31]
       start_competence_idempotent [OF c', where u = alice and ida = "''p3''" and ta = 20 and tb = 21
             and idb = "''p4''" and tc = 30 and td = 31] p
  show ?thesis by simp
qed


section \<open>Quiz questions\<close>

text \<open>
  Claim C2. For an authenticated caller, \<open>get_quiz_questions\<close> succeeds and returns one
  item for each stored question of the competence, in order; the item of a question is
  the object with exactly the keys \<^verbatim>\<open>id\<close>, \<^verbatim>\<open>question\<close> and \<^verbatim>\<open>options\<close>, holding
  that question's values, and so has no \<^verbatim>\<open>correct_answer\<close> key.
\<close>

theorem quiz_questions_redacted:
  "(case get_quiz_questions d cid (Some u) of
      Inl e \<Rightarrow> False
    | Inr items \<Rightarrow>
        length items = length (find_all (\<lambda>q. q_competence_id q = cid) (quiz_questions d)) \<and>
        (\<forall>i < length items.
           items ! i =
             [(''id'',
               JString (q_id (find_all (\<lambda>q. q_competence_id q = cid) (quiz_questions d) ! i))),
              (''question'',
               JString (q_question
                  (find_all (\<lambda>q. q_competence_id q = cid) (quiz_questions d) ! i))),
              (''options'',
               JStrings (q_options
                  (find_all (\<lambda>q. q_competence_id q = cid) (quiz_questions d) ! i)))]) \<and>
        (\<forall>item \<in> set items.
           map fst item = [''id'', ''question'', ''options''] \<and>
           map_of item ''correct_answer'' = None))"
  by (auto simp: get_quiz_questions_def redact_def Let_def)

theorem quiz_questions_redacted_witness:
  "(case get_quiz_questions quiz_db ''c1'' (Some alice) of
      Inl e \<Rightarrow> False
    | Inr items \<Rightarrow>
        length items = 3 \<and>
        items ! 0 = [(''id'', JString ''q1''), (''question'', JString ''Which one?''),
                     (''options'', JStrings [''a'', ''b'', ''c'', ''d''])] \<and>
        items ! 2 = [(''id'', JString ''q3''), (''question'', JString ''Which one?''),
                     (''options'', JStrings [''a'', ''b'', ''c'', ''d''])])"
proof -
  note redacted = quiz_questions_redacted [where d = quiz_db and cid = "''c1''" and u = alice]
  have qs: "find_all (\<lambda>q. q_competence_id q = ''c1'') (quiz_questions quiz_db) =
              [question ''q1'' ''c1'' 1, question ''q2'' ''c1'' 1, question ''q3'' ''c1'' 2]"
    by (simp add: find_all_def quiz_example_defs)
  show ?thesis
  proof (cases "get_quiz_questions quiz_db ''c1'' (Some alice)")
    case (Inl e)
    with redacted show ?thesis by simp
  next
    case (Inr items)
    with redacted have len: "length items = 3"
      and each: "\<forall>i < length items.
           items ! i =
             [(''id'',
               JString (q_id ([question ''q1'' ''c1'' 1, question ''q2'' ''c1'' 1,
                               question ''q3'' ''c1'' 2] ! i))),
              (''question'',
               JString (q_question ([question ''q1'' ''c1'' 1, question ''q2'' ''c1'' 1,
                                     question ''q3'' ''c1'' 2] ! i))),
              (''options'',
               JStrings (q_options ([question ''q1'' ''c1'' 1, question ''q2'' ''c1'' 1,
                                     question ''q3'' ''c1'' 2] ! i)))]"
      by (simp_all add: qs)
    from each [rule_format, of 0] each [rule_format, of 2] len Inr show ?thesis
      by (simp add: question_def)
  qed
qed

section \<open>Quiz submission\<close>

text \<open>What a submission does when the caller is authenticated, the competence has at
  least one question and the competence row exists.\<close>

lemma submit_quiz_success:
  assumes "find_one (\<lambda>c. c_id c = cid) (competences d) = Some c"
    and "find_all (\<lambda>q. q_competence_id q = cid) (quiz_questions d) \<noteq> []"
  shows "submit_quiz d ida ta tb cid answers (Some u) =
     (let questions = find_all (\<lambda>q. q_competence_id q = cid) (quiz_questions d);
          k = score_loop 0 questions answers 0;
          sc = round_double (round_double (of_int k / of_int (int (length questions))) * 100);
          n = count_documents (\<lambda>a. a_user_id a = u_id u \<and> a_competence_id a = cid)
                (quiz_attempts d) + 1
      in (Inr \<lparr>score = sc, passed = (c_success_threshold c \<le> sc), correct_answers = k,
               total_questions = int (length questions)\<rparr>,
          d\<lparr>quiz_attempts :=
               quiz_attempts d @
                 [\<lparr>a_id = ida, a_user_id = u_id u, a_competence_id = cid, a_answers = answers,
                   a_score = sc, a_passed = (c_success_threshold c \<le> sc),
                   a_attempt_number = n, a_created_at = now_utc ta\<rparr>],
             user_progress :=
               update_one (\<lambda>p. p_user_id p = u_id u \<and> p_competence_id p = cid)
                 (\<lambda>p. p\<lparr>p_current_score := sc, p_quiz_attempts := n,
                         p_last_activity := now_utc tb\<rparr>)
                 (user_progress d)\<rparr>))"
  using assms
  by (simp add: submit_quiz_def int_truediv_def float_mul_def insert_one_def Let_def)

lemma submit_quiz_not_found_iff:
  "fst (submit_quiz d ida ta tb cid answers (Some u)) = Inl (HTTPException 404 ''Quiz not found'')
     \<longleftrightarrow> find_all (\<lambda>q. q_competence_id q = cid) (quiz_questions d) = []"
  by (simp add: submit_quiz_def int_truediv_def Let_def split: option.splits)

text \<open>
  Claim C4 fails on the code. Here one question is stored for the competence id
  \<^verbatim>\<open>c9\<close> and no competence row has that id: the submission of an authenticated user
  neither succeeds nor fails with 404. \<^verbatim>\<open>find_one\<close> returns \<^verbatim>\<open>None\<close>, and
  \<^verbatim>\<open>competence["success_threshold"]\<close> raises a \<open>TypeError\<close> that nothing catches.
\<close>

theorem submit_quiz_missing_competence:
  "submit_quiz orphan_db ''a1'' 10 11 ''c9'' [0] (Some alice)
     = (Inl (TypeError NoneType_not_subscriptable), orphan_db)"
  by (simp add: submit_quiz_def find_all_def find_one_def int_truediv_def Let_def
        quiz_example_defs more_example_defs)

lemma submit_quiz_progress:
  assumes "submit_quiz d ida ta tb cid answers (Some u) = (Inr r, d')"
  shows "user_progress d' =
           update_one (\<lambda>p. p_user_id p = u_id u \<and> p_competence_id p = cid)
             (\<lambda>p. p\<lparr>p_current_score := score r,
                     p_quiz_attempts :=
                       count_documents (\<lambda>a. a_user_id a = u_id u \<and> a_competence_id a = cid)
                         (quiz_attempts d) + 1,
                     p_last_activity := now_utc tb\<rparr>)
             (user_progress d)"
  using assms
  by (auto simp: submit_quiz_def Let_def split: if_splits sum.splits option.splits)

lemma int_truediv_2_3: "int_truediv 2 3 = Inr (6004799503160661 / 9007199254740992)"
  by code_simp

lemma float_mul_2_3:
  "float_mul (6004799503160661 / 9007199254740992) 100 = 2345624805922133 / 35184372088832"
  by code_simp

text \<open>The submission of the specification's scenario: answers 1, 0, 2 against the correct
  indices 1, 1, 2.\<close>

lemma submit_quiz_example:
  "submit_quiz progress_db ''a1'' 10 11 ''c1'' [1, 0, 2] (Some alice) =
     (Inr \<lparr>score = 2345624805922133 / 35184372088832, passed = True, correct_answers = 2,
           total_questions = 3\<rparr>,
      progress_db
        \<lparr>quiz_attempts :=
           [\<lparr>a_id = ''a1'', a_user_id = ''u1'', a_competence_id = ''c1'', a_answers = [1, 0, 2],
             a_score = 2345624805922133 / 35184372088832, a_passed = True,
             a_attempt_number = 1, a_created_at = Aware 10 0\<rparr>],
         user_progress :=
           [bob_progress,
            alice_progress\<lparr>p_current_score := 2345624805922133 / 35184372088832,
                           p_quiz_attempts := 1, p_last_activity := Aware 11 0\<rparr>]\<rparr>)"
  by (simp add: submit_quiz_def find_all_def find_one_def count_documents_def insert_one_def
        now_utc_def Let_def int_truediv_2_3 float_mul_2_3 quiz_example_defs more_example_defs)

text \<open>The outcome of a submission does not depend on the progress collection.\<close>

lemma submit_quiz_result_independent:
  "fst (submit_quiz (d\<lparr>user_progress := rows\<rparr>) ida ta tb cid answers usr)
     = fst (submit_quiz d ida ta tb cid answers usr)"
  by (simp add: submit_quiz_def Let_def split: option.splits sum.splits)

lemma submit_quiz_rows_kept:
  assumes "submit_quiz d ida ta tb cid answers (Some u) = (Inr r, d')"
  shows "length (user_progress d') = length (user_progress d) \<and>
         (\<forall>i < length (user_progress d).
            (user_progress d' ! i)\<lparr>p_current_score := p_current_score (user_progress d ! i),
                                   p_quiz_attempts := p_quiz_attempts (user_progress d ! i),
                                   p_last_activity := p_last_activity (user_progress d ! i)\<rparr>
              = user_progress d ! i \<and>
            p_status (user_progress d' ! i) = p_status (user_progress d ! i) \<and>
            p_certified (user_progress d' ! i) = p_certified (user_progress d ! i) \<and>
            p_started_at (user_progress d' ! i) = p_started_at (user_progress d ! i) \<and>
            p_completed_at (user_progress d' ! i) = p_completed_at (user_progress d ! i) \<and>
            (user_progress d' ! i = user_progress d ! i \<or>
             p_user_id (user_progress d ! i) = u_id u \<and>
             p_competence_id (user_progress d ! i) = cid)) \<and>
         ((\<forall>p \<in> set (user_progress d). \<not> (p_user_id p = u_id u \<and> p_competence_id p = cid))
            \<longrightarrow> user_progress d' = user_progress d)"
proof -
  let ?f = "\<lambda>p. p_user_id p = u_id u \<and> p_competence_id p = cid"
  let ?upd = "\<lambda>p. p\<lparr>p_current_score := score r,
                     p_quiz_attempts :=
                       count_documents (\<lambda>a. a_user_id a = u_id u \<and> a_competence_id a = cid)
                         (quiz_attempts d) + 1,
                     p_last_activity := now_utc tb\<rparr>"
  have eq: "user_progress d' = update_one ?f ?upd (user_progress d)"
    by (rule submit_quiz_progress [OF assms])
  have len: "length (user_progress d') = length (user_progress d)"
    by (simp add: eq)
  have rows: "(user_progress d' ! i)\<lparr>p_current_score := p_current_score (user_progress d ! i),
                                   p_quiz_attempts := p_quiz_attempts (user_progress d ! i),
                                   p_last_activity := p_last_activity (user_progress d ! i)\<rparr>
              = user_progress d ! i \<and>
            p_status (user_progress d' ! i) = p_status (user_progress d ! i) \<and>
            p_certified (user_progress d' ! i) = p_certified (user_progress d ! i) \<and>
            p_started_at (user_progress d' ! i) = p_started_at (user_progress d ! i) \<and>
            p_completed_at (user_progress d' ! i) = p_completed_at (user_progress d ! i) \<and>
            (user_progress d' ! i = user_progress d ! i \<or>
             p_user_id (user_progress d ! i) = u_id u \<and>
             p_competence_id (user_progress d ! i) = cid)"
    if "i < length (user_progress d)" for i
    using update_one_nth [OF that, of ?f ?upd] by (auto simp: eq)
  have none: "user_progress d' = user_progress d"
    if "\<forall>p \<in> set (user_progress d). \<not> (p_user_id p = u_id u \<and> p_competence_id p = cid)"
    using that by (simp add: eq update_one_no_match)
  from len rows none show ?thesis by blast
qed

text \<open>
  Claim C9. A successful submission leaves the progress collection with the same number
  of rows; every row keeps all its fields other than \<^verbatim>\<open>current_score\<close>,
  \<^verbatim>\<open>quiz_attempts\<close> and \<^verbatim>\<open>last_activity\<close> (in particular \<^verbatim>\<open>status\<close>,
  \<^verbatim>\<open>certified\<close>, \<^verbatim>\<open>started_at\<close> and \<^verbatim>\<open>completed_at\<close>), and a row of another user or
  competence is not changed at all. When the user has no progress row for the competence,
  the progress collection is what it was: no row is created. Whether the submission
  succeeds, and what it returns, does not depend on the progress collection: with the
  competence row and at least one question stored, a user without a progress row for the
  competence still gets a successful submission, and the progress collection stays as
  it was.
\<close>

theorem submit_quiz_progress_frame:
  "(submit_quiz d ida ta tb cid answers (Some u) = (Inr r, d') \<longrightarrow>
      length (user_progress d') = length (user_progress d) \<and>
      (\<forall>i < length (user_progress d).
         (user_progress d' ! i)\<lparr>p_current_score := p_current_score (user_progress d ! i),
                                p_quiz_attempts := p_quiz_attempts (user_progress d ! i),
                                p_last_activity := p_last_activity (user_progress d ! i)\<rparr>
           = user_progress d ! i \<and>
         p_status (user_progress d' ! i) = p_status (user_progress d ! i) \<and>
         p_certified (user_progress d' ! i) = p_certified (user_progress d ! i) \<and>
         p_started_at (user_progress d' ! i) = p_started_at (user_progress d ! i) \<and>
         p_completed_at (user_progress d' ! i) = p_completed_at (user_progress d ! i) \<and>
         (user_progress d' ! i = user_progress d ! i \<or>
          p_user_id (user_progress d ! i) = u_id u \<and>
          p_competence_id (user_progress d ! i) = cid)) \<and>
      ((\<forall>p \<in> set (user_progress d). \<not> (p_user_id p = u_id u \<and> p_competence_id p = cid))
         \<longrightarrow> user_progress d' = user_progress d)) \<and>
   fst (submit_quiz (d\<lparr>user_progress := rows\<rparr>) ida ta tb cid answers (Some u))
     = fst (submit_quiz d ida ta tb cid answers (Some u)) \<and>
   (find_one (\<lambda>c. c_id c = cid) (competences d) = Some c \<and>
    find_all (\<lambda>q. q_competence_id q = cid) (quiz_questions d) \<noteq> [] \<and>
    (\<forall>p \<in> set (user_progress d). \<not> (p_user_id p = u_id u \<and> p_competence_id p = cid)) \<longrightarrow>
      (\<exists>res dnew. submit_quiz d ida ta tb cid answers (Some u) = (Inr res, dnew) \<and>
                  user_progress dnew = user_progress d))"
proof -
  have kept: "submit_quiz d ida ta tb cid answers (Some u) = (Inr r, d') \<longrightarrow>
    length (user_progress d') = length (user_progress d) \<and>
    (\<forall>i < length (user_progress d).
       (user_progress d' ! i)\<lparr>p_current_score := p_current_score (user_progress d ! i),
                              p_quiz_attempts := p_quiz_attempts (user_progress d ! i),
                              p_last_activity := p_last_activity (user_progress d ! i)\<rparr>
         = user_progress d ! i \<and>
       p_status (user_progress d' ! i) = p_status (user_progress d ! i) \<and>
       p_certified (user_progress d' ! i) = p_certified (user_progress d ! i) \<and>
       p_started_at (user_progress d' ! i) = p_started_at (user_progress d ! i) \<and>
       p_completed_at (user_progress d' ! i) = p_completed_at (user_progress d ! i) \<and>
       (user_progress d' ! i = user_progress d ! i \<or>
        p_user_id (user_progress d ! i) = u_id u \<and>
        p_competence_id (user_progress d ! i) = cid)) \<and>
    ((\<forall>p \<in> set (user_progress d). \<not> (p_user_id p = u_id u \<and> p_competence_id p = cid))
       \<longrightarrow> user_progress d' = user_progress d)"
    by (rule impI) (rule submit_quiz_rows_kept)
  have indep: "fst (submit_quiz (d\<lparr>user_progress := rows\<rparr>) ida ta tb cid answers (Some u))
                 = fst (submit_quiz d ida ta tb cid answers (Some u))"
    by (rule submit_quiz_result_independent)
  have still: "find_one (\<lambda>c. c_id c = cid) (competences d) = Some c \<and>
    find_all (\<lambda>q. q_competence_id q = cid) (quiz_questions d) \<noteq> [] \<and>
    (\<forall>p \<in> set (user_progress d). \<not> (p_user_id p = u_id u \<and> p_competence_id p = cid)) \<longrightarrow>
      (\<exists>res dnew. submit_quiz d ida ta tb cid answers (Some u) = (Inr res, dnew) \<and>
                  user_progress dnew = user_progress d)"
  proof
    assume h: "find_one (\<lambda>c. c_id c = cid) (competences d) = Some c \<and>
      find_all (\<lambda>q. q_competence_id q = cid) (quiz_questions d) \<noteq> [] \<and>
      (\<forall>p \<in> set (user_progress d). \<not> (p_user_id p = u_id u \<and> p_competence_id p = cid))"
    then have comp: "find_one (\<lambda>c. c_id c = cid) (competences d) = Some c"
      and qs: "find_all (\<lambda>q. q_competence_id q = cid) (quiz_questions d) \<noteq> []"
      and none: "\<forall>p \<in> set (user_progress d).
                   \<not> (p_user_id p = u_id u \<and> p_competence_id p = cid)"
      by blast+
    show "\<exists>res dnew. submit_quiz d ida ta tb cid answers (Some u) = (Inr res, dnew) \<and>
                     user_progress dnew = user_progress d"
      unfolding submit_quiz_success [OF comp qs]
      using none by (simp add: Let_def update_one_no_match)
  qed
  show ?thesis by (rule conjI [OF kept conjI [OF indep still]])
qed

lemma submit_quiz_example_no_row:
  "quiz_db\<lparr>user_progress := [bob_progress, alice_progress]\<rparr> = progress_db \<and>
   user_progress quiz_db = [] \<and>
   find_one (\<lambda>c. c_id c = ''c1'') (competences quiz_db) = Some competence1 \<and>
   find_all (\<lambda>q. q_competence_id q = ''c1'') (quiz_questions quiz_db) \<noteq> []"
  by (simp add: find_one_def find_all_def quiz_example_defs more_example_defs)

theorem submit_quiz_progress_frame_witness:
  "user_progress (snd (submit_quiz progress_db ''a1'' 10 11 ''c1'' [1, 0, 2] (Some alice))) ! 0
     = bob_progress \<and>
   p_status (user_progress
      (snd (submit_quiz progress_db ''a1'' 10 11 ''c1'' [1, 0, 2] (Some alice))) ! 1)
     = ''in_progress'' \<and>
   length (user_progress (snd (submit_quiz progress_db ''a1'' 10 11 ''c1'' [1, 0, 2] (Some alice))))
     = 2 \<and>
   fst (submit_quiz quiz_db ''a1'' 10 11 ''c1'' [1, 0, 2] (Some alice)) =
     Inr \<lparr>score = 2345624805922133 / 35184372088832, passed = True, correct_answers = 2,
          total_questions = 3\<rparr> \<and>
   user_progress (snd (submit_quiz quiz_db ''a1'' 10 11 ''c1'' [1, 0, 2] (Some alice))) = []"
proof -
  note indep = submit_quiz_progress_frame
                 [where d = quiz_db and u = alice
                    and rows = "[bob_progress, alice_progress]" and ida = "''a1''"
                    and ta = 10 and tb = 11 and cid = "''c1''" and answers = "[1, 0, 2]",
                  THEN conjunct2, THEN conjunct1]
  note still = submit_quiz_progress_frame
                 [where d = quiz_db and u = alice
                    and c = competence1 and ida = "''a1''"
                    and ta = 10 and tb = 11 and cid = "''c1''" and answers = "[1, 0, 2]",
                  THEN conjunct2, THEN conjunct2, rule_format]
  have no_row: "\<forall>p \<in> set (user_progress quiz_db).
                  \<not> (p_user_id p = u_id alice \<and> p_competence_id p = ''c1'')"
    by (simp add: submit_quiz_example_no_row)
  from indep have outcome:
    "fst (submit_quiz quiz_db ''a1'' 10 11 ''c1'' [1, 0, 2] (Some alice)) =
       Inr \<lparr>score = 2345624805922133 / 35184372088832, passed = True, correct_answers = 2,
            total_questions = 3\<rparr>"
    by (simp add: submit_quiz_example_no_row submit_quiz_example)
  from still submit_quiz_example_no_row no_row
  obtain res dnew where
      "submit_quiz quiz_db ''a1'' 10 11 ''c1'' [1, 0, 2] (Some alice) = (Inr res, dnew)"
    and "user_progress dnew = user_progress quiz_db"
    by blast
  then have untouched:
    "user_progress (snd (submit_quiz quiz_db ''a1'' 10 11 ''c1'' [1, 0, 2] (Some alice))) = []"
    by (simp add: submit_quiz_example_no_row)
  note frame = submit_quiz_progress_frame
                 [THEN conjunct1, rule_format, OF submit_quiz_example]
  have rows: "user_progress progress_db = [bob_progress, alice_progress]"
    by (simp add: progress_db_def)
  from frame have len: "length (user_progress
      (snd (submit_quiz progress_db ''a1'' 10 11 ''c1'' [1, 0, 2] (Some alice)))) = 2"
    by (simp add: submit_quiz_example rows)
  from frame have all: "\<forall>i < length (user_progress progress_db).
      p_status (user_progress
        (snd (submit_quiz progress_db ''a1'' 10 11 ''c1'' [1, 0, 2] (Some alice))) ! i)
        = p_status (user_progress progress_db ! i) \<and>
      (user_progress
        (snd (submit_quiz progress_db ''a1'' 10 11 ''c1'' [1, 0, 2] (Some alice))) ! i
        = user_progress progress_db ! i \<or>
       p_user_id (user_progress progress_db ! i) = u_id alice \<and>
       p_competence_id (user_progress progress_db ! i) = ''c1'')"
    by (simp add: submit_quiz_example)
  from all [rule_format, of 0] all [rule_format, of 1] len outcome untouched show ?thesis
    by (simp add: rows alice_def alice_progress_def bob_progress_def)
qed


section \<open>Workshop chat\<close>

text \<open>
  Claim C7. When no workshop session row has both the given session id and the id of the
  requesting user (no row has the id, or every row that has it belongs to someone else),
  \<open>chat_with_ai\<close> fails with 404 \<^verbatim>\<open>Workshop session not found\<close>, returns the database as
  it was and makes no call to the external chat service.
\<close>

theorem chat_not_found_no_effect:
  assumes "\<forall>s \<in> set (ai_workshop_sessions d). \<not> (w_id s = sid \<and> w_user_id s = u_id u)"
  shows "chat_with_ai send_message key ts_user ts_assistant d sid message (Some u)
           = (Inl (HTTPException 404 ''Workshop session not found''), d, [])"
proof -
  from assms
  have "find (\<lambda>s. w_id s = sid \<and> w_user_id s = u_id u) (ai_workshop_sessions d) = None"
    by (rule find_conj_None)
  then show ?thesis
    by (simp add: chat_with_ai_def find_one_def)
qed

theorem chat_not_found_no_effect_witness:
  "chat_with_ai echo_service None ''t1'' ''t2'' workshop_db ''w1'' ''Salut'' (Some alice)
     = (Inl (HTTPException 404 ''Workshop session not found''), workshop_db, []) \<and>
   chat_with_ai echo_service None ''t1'' ''t2'' workshop_db ''w7'' ''Salut'' (Some bob)
     = (Inl (HTTPException 404 ''Workshop session not found''), workshop_db, [])"
proof -
  have 1: "\<forall>s \<in> set (ai_workshop_sessions workshop_db). \<not> (w_id s = ''w1'' \<and> w_user_id s = u_id alice)"
    by (simp add: quiz_example_defs more_example_defs)
  have 2: "\<forall>s \<in> set (ai_workshop_sessions workshop_db). \<not> (w_id s = ''w7'' \<and> w_user_id s = u_id bob)"
    by (simp add: quiz_example_defs more_example_defs)
  from chat_not_found_no_effect [OF 1] chat_not_found_no_effect [OF 2] show ?thesis by simp
qed

lemma chat_owner_reaches_service:
  "fst (chat_with_ai echo_service None ''t1'' ''t2'' workshop_db ''w1'' ''Salut'' (Some bob))
     = Inr ''Bonjour: Salut'' \<and>
   length (snd (snd (chat_with_ai echo_service None ''t1'' ''t2'' workshop_db ''w1'' ''Salut'' (Some bob)))) = 1"
  by (simp add: chat_with_ai_def find_one_def Let_def quiz_example_defs more_example_defs)


section \<open>Accuracy of double-precision rounding\<close>

text \<open>
  The rounding on values whose doubles are known: \<^verbatim>\<open>0.1\<close>, the two ties next to 1
  (to the even significand, once down and once up) and a negative quotient.
\<close>

lemma round_double_examples:
  "round_double (1 / 10) = 3602879701896397 / 2 ^ 55"
  "round_double (1 + 1 / 2 ^ 53) = 1"
  "round_double (1 + 3 / 2 ^ 53) = 2251799813685249 / 2 ^ 51"
  "round_double (- 2 / 3) = - 6004799503160661 / 2 ^ 53"
  by code_simp+

lemma round_half_even_error: "\<bar>of_int (round_half_even x) - x\<bar> \<le> 1 / 2"
proof -
  have "of_int \<lfloor>x\<rfloor> \<le> x" "x < of_int \<lfloor>x\<rfloor> + 1" by linarith+
  then show ?thesis
    unfolding round_half_even_def Let_def by (simp add: abs_le_iff)
qed

lemma pow2_powi: "pow2 e = 2 powi e"
  by (simp add: pow2_def power_int_def power_inverse inverse_eq_divide power_one_over)

lemma pow2_pos [simp]: "0 < pow2 e"
  by (simp add: pow2_powi zero_less_power_int)

lemma pow2_nonneg [simp]: "0 \<le> pow2 e"
  by (rule less_imp_le) (rule pow2_pos)

lemma pow2_add: "pow2 (a + b) = pow2 a * pow2 b"
  by (simp add: pow2_powi power_int_add)

lemma pow2_diff: "pow2 (a - b) = pow2 a / pow2 b"
  by (simp add: pow2_powi power_int_diff)

lemma pow2_nat: "0 \<le> e \<Longrightarrow> pow2 e = 2 ^ nat e"
  by (simp add: pow2_def)

lemma pow2_mono: "a \<le> b \<Longrightarrow> pow2 a \<le> pow2 b"
  by (simp add: pow2_powi power_int_increasing)

lemma pow2_strict_mono: "a < b \<Longrightarrow> pow2 a < pow2 b"
  by (simp add: pow2_powi power_int_strict_increasing)

lemma pow2_less_cancel: "pow2 a < pow2 b \<Longrightarrow> a < b"
  using pow2_mono [of b a] by (cases "a < b") auto


lemma bitlen_bounds_rat:
  assumes "0 < p"
  shows "pow2 (bitlen p - 1) \<le> of_int p \<and> of_int p < pow2 (bitlen p)"
proof -
  have b: "1 \<le> bitlen p" using assms by (simp add: bitlen_alt_def)
  from bitlen_bounds [OF assms]
  have "of_int (2 ^ nat (bitlen p - 1)) \<le> (of_int p :: rat)"
    and "(of_int p :: rat) < of_int (2 ^ nat (bitlen p))"
    by (simp_all only: of_int_le_iff of_int_less_iff)
  then have "(2::rat) ^ nat (bitlen p - 1) \<le> of_int p" "of_int p < (2::rat) ^ nat (bitlen p)"
    by simp_all
  with b show ?thesis by (simp add: pow2_nat)
qed


lemma binade_bounds:
  assumes "0 < x"
  shows "pow2 (binade x) \<le> x \<and> x < pow2 (binade x + 1)"
proof -
  obtain p q where pq: "quotient_of x = (p, q)" by (cases "quotient_of x")
  have q: "0 < q" using pq by (rule quotient_of_denom_pos)
  have x: "x = of_int p / of_int q" using pq by (rule quotient_of_div)
  have qpos: "(0::rat) < of_int q" using q by simp
  have ppos: "(0::rat) < of_int p"
    using assms qpos unfolding x by (simp add: zero_less_divide_iff)
  then have p: "0 < p" by simp
  from bitlen_bounds_rat [OF p]
  have pb1: "pow2 (bitlen p - 1) \<le> of_int p" and pb2: "of_int p < pow2 (bitlen p)"
    by simp_all
  from bitlen_bounds_rat [OF q]
  have qb1: "pow2 (bitlen q - 1) \<le> of_int q" and qb2: "of_int q < pow2 (bitlen q)"
    by simp_all
  have lower: "pow2 (bitlen p - bitlen q - 1) \<le> x"
  proof -
    have "pow2 (bitlen p - bitlen q - 1) = pow2 ((bitlen p - 1) - bitlen q)"
      by (simp add: algebra_simps)
    also have "\<dots> = pow2 (bitlen p - 1) / pow2 (bitlen q)"
      by (rule pow2_diff)
    also have "\<dots> \<le> of_int p / pow2 (bitlen q)"
      using pb1 by (intro divide_right_mono) simp_all
    also have "\<dots> \<le> of_int p / of_int q"
      using qb2 qpos ppos by (intro divide_left_mono) simp_all
    finally show ?thesis by (simp add: x)
  qed
  have upper: "x < pow2 (bitlen p - bitlen q + 1)"
  proof -
    have "x = of_int p / of_int q" by (rule x)
    also have "\<dots> < pow2 (bitlen p) / of_int q"
      using pb2 qpos by (intro divide_strict_right_mono) simp_all
    also have "\<dots> \<le> pow2 (bitlen p) / pow2 (bitlen q - 1)"
      using qb1 qpos by (intro divide_left_mono) simp_all
    also have "\<dots> = pow2 (bitlen p - (bitlen q - 1))"
      by (rule pow2_diff [symmetric])
    also have "\<dots> = pow2 (bitlen p - bitlen q + 1)"
      by (simp add: algebra_simps)
    finally show ?thesis .
  qed
  show ?thesis
  proof (cases "pow2 (bitlen p - bitlen q) \<le> x")
    case True
    then have "binade x = bitlen p - bitlen q"
      by (simp add: binade_def pq Let_def)
    with True upper show ?thesis by simp
  next
    case False
    then have "binade x = bitlen p - bitlen q - 1"
      by (simp add: binade_def pq Let_def)
    with False lower show ?thesis by simp
  qed
qed


lemma round_double_spacing:
  assumes "x \<noteq> 0"
  shows "\<bar>round_double x - x\<bar> \<le> pow2 (max (binade \<bar>x\<bar>) (- 1022) - 52) / 2"
proof -
  define u where "u = pow2 (max (binade \<bar>x\<bar>) (- 1022) - 52)"
  define m where "m = round_half_even (\<bar>x\<bar> / u)"
  have u: "0 < u" by (simp add: u_def)
  have rd: "round_double x = sgn x * (of_int m * u)"
    using assms by (simp add: round_double_def Let_def u_def m_def)
  have "round_double x - x = sgn x * (of_int m * u) - sgn x * \<bar>x\<bar>"
    by (simp add: rd mult_sgn_abs)
  also have "\<dots> = sgn x * (of_int m * u - \<bar>x\<bar>)"
    by (simp add: right_diff_distrib)
  finally have "\<bar>round_double x - x\<bar> = \<bar>sgn x\<bar> * \<bar>of_int m * u - \<bar>x\<bar>\<bar>"
    by (simp add: abs_mult)
  also have "\<bar>sgn x\<bar> = 1"
    using assms by (simp add: abs_sgn_eq)
  also have "of_int m * u - \<bar>x\<bar> = (of_int m - \<bar>x\<bar> / u) * u"
    using u by (simp add: left_diff_distrib)
  also have "\<bar>(of_int m - \<bar>x\<bar> / u) * u\<bar> = \<bar>of_int m - \<bar>x\<bar> / u\<bar> * u"
    using u by (simp add: abs_mult)
  finally have "\<bar>round_double x - x\<bar> = \<bar>of_int m - \<bar>x\<bar> / u\<bar> * u"
    by simp
  also have "\<dots> \<le> (1 / 2) * u"
    using round_half_even_error [of "\<bar>x\<bar> / u"] u
    unfolding m_def by (intro mult_right_mono) simp_all
  finally show ?thesis by (simp add: u_def)
qed

text \<open>Absolute error below a power of two.\<close>

lemma round_double_error:
  assumes "\<bar>x\<bar> < pow2 (e + 1)" and "- 1022 \<le> e"
  shows "\<bar>round_double x - x\<bar> \<le> pow2 (e - 53)"
proof (cases "x = 0")
  case True
  then show ?thesis by (simp add: round_double_def)
next
  case False
  then have "0 < \<bar>x\<bar>" by simp
  from binade_bounds [OF this] assms(1) have "pow2 (binade \<bar>x\<bar>) < pow2 (e + 1)"
    by simp
  then have "binade \<bar>x\<bar> < e + 1" by (rule pow2_less_cancel)
  with assms(2) have "max (binade \<bar>x\<bar>) (- 1022) - 52 \<le> e - 52" by simp
  then have "pow2 (max (binade \<bar>x\<bar>) (- 1022) - 52) \<le> pow2 (e - 52)"
    by (rule pow2_mono)
  with round_double_spacing [OF False]
  have "\<bar>round_double x - x\<bar> \<le> pow2 (e - 52) / 2" by simp
  also have "\<dots> = pow2 (e - 52) / pow2 1" by (simp add: pow2_def)
  also have "\<dots> = pow2 (e - 52 - 1)" by (rule pow2_diff [symmetric])
  finally show ?thesis by (simp add: algebra_simps)
qed

text \<open>Relative error in the normal range.\<close>

lemma round_double_relative_error:
  assumes "pow2 (- 1022) \<le> \<bar>x\<bar>"
  shows "\<bar>round_double x - x\<bar> \<le> \<bar>x\<bar> / 2 ^ 53"
proof -
  have pos: "0 < \<bar>x\<bar>" using assms pow2_pos [of "- 1022"] by linarith
  then have nz: "x \<noteq> 0" by simp
  from binade_bounds [OF pos] assms have "pow2 (- 1022) < pow2 (binade \<bar>x\<bar> + 1)"
    by simp
  then have "- 1022 < binade \<bar>x\<bar> + 1" by (rule pow2_less_cancel)
  then have "max (binade \<bar>x\<bar>) (- 1022) = binade \<bar>x\<bar>" by simp
  with round_double_spacing [OF nz]
  have "\<bar>round_double x - x\<bar> \<le> pow2 (binade \<bar>x\<bar> - 52) / 2" by simp
  also have "\<dots> = pow2 (binade \<bar>x\<bar>) / pow2 52 / 2" by (simp add: pow2_diff)
  also have "\<dots> = pow2 (binade \<bar>x\<bar>) / 2 ^ 53" by (simp add: pow2_def)
  also have "\<dots> \<le> \<bar>x\<bar> / 2 ^ 53"
    using binade_bounds [OF pos] by (intro divide_right_mono) simp_all
  finally show ?thesis .
qed

lemma round_double_0 [simp]: "round_double 0 = 0"
  by (simp add: round_double_def)

lemma round_double_1: "round_double 1 = 1"
  by code_simp

lemma round_double_100: "round_double 100 = 100"
  by code_simp

lemma two_step_error:
  fixes s r x :: rat
  shows "\<bar>s - 100 * x\<bar> \<le> \<bar>s - r * 100\<bar> + 100 * \<bar>r - x\<bar>"
proof -
  have "s - 100 * x = (s - r * 100) + 100 * (r - x)" by (simp add: algebra_simps)
  also have "\<bar>\<dots>\<bar> \<le> \<bar>s - r * 100\<bar> + \<bar>100 * (r - x)\<bar>" by (rule abs_triangle_ineq)
  finally show ?thesis by (simp only: abs_mult abs_numeral)
qed

lemma percentage_absolute_error:
  fixes k n :: int
  assumes "0 \<le> k" "k \<le> n" "0 < n"
  shows "\<bar>round_double (round_double (of_int k / of_int n) * 100) - 100 * of_int k / of_int n\<bar>
           \<le> 1 / 2 ^ 45"
proof -
  define x :: rat where "x = of_int k / of_int n"
  define r where "r = round_double x"
  have x0: "0 \<le> x" and x1: "x \<le> 1"
    using assms by (simp_all add: x_def)
  have "\<bar>x\<bar> < pow2 (0 + 1)" using x0 x1 by (simp add: pow2_def)
  then have "\<bar>r - x\<bar> \<le> pow2 (0 - 53)"
    unfolding r_def by (rule round_double_error) simp
  then have rx: "\<bar>r - x\<bar> \<le> 1 / 2 ^ 53" by (simp add: pow2_def)
  then have "\<bar>r\<bar> \<le> 1 + 1 / 2 ^ 53" using x0 x1 by linarith
  then have "\<bar>r * 100\<bar> < pow2 (6 + 1)" by (simp add: pow2_def abs_mult)
  then have "\<bar>round_double (r * 100) - r * 100\<bar> \<le> pow2 (6 - 53)"
    by (rule round_double_error) simp
  then have sy: "\<bar>round_double (r * 100) - r * 100\<bar> \<le> 1 / 2 ^ 47" by (simp add: pow2_def)
  have "\<bar>round_double (r * 100) - 100 * x\<bar>
          \<le> \<bar>round_double (r * 100) - r * 100\<bar> + 100 * \<bar>r - x\<bar>"
    by (rule two_step_error)
  also have "\<dots> \<le> 1 / 2 ^ 47 + 100 * (1 / 2 ^ 53)"
    using sy rx by (intro add_mono mult_left_mono) simp_all
  also have "\<dots> \<le> 1 / 2 ^ 45" by simp
  finally show ?thesis by (simp add: r_def x_def)
qed

lemma percentage_relative_error:
  fixes k n :: int
  assumes "0 < k" "0 < n" "n \<le> 2 ^ 1022"
  shows "\<bar>round_double (round_double (of_int k / of_int n) * 100) - 100 * of_int k / of_int n\<bar>
           \<le> (100 * of_int k / of_int n) / 2 ^ 51"
proof -
  define x :: rat where "x = of_int k / of_int n"
  define r where "r = round_double x"
  have npos: "(0::rat) < of_int n" using assms by simp
  have "(of_int n :: rat) \<le> of_int (2 ^ 1022)"
    using assms(3) by (simp only: of_int_le_iff)
  then have nle: "(of_int n :: rat) \<le> 2 ^ 1022" by simp
  have "(1::rat) \<le> of_int k" using assms(1) by simp
  then have "1 / 2 ^ 1022 \<le> (of_int k :: rat) / of_int n"
    using nle npos by (intro frac_le) simp_all
  then have xlow: "pow2 (- 1022) \<le> x" by (simp add: x_def pow2_def)
  then have xpos: "0 < x" using pow2_pos [of "- 1022"] by linarith
  from xlow xpos have "\<bar>r - x\<bar> \<le> \<bar>x\<bar> / 2 ^ 53"
    unfolding r_def by (intro round_double_relative_error) simp
  with xpos have rx: "\<bar>r - x\<bar> \<le> x / 2 ^ 53" by simp
  have "x / 2 ^ 53 \<le> x / 2" using xpos by (intro divide_left_mono) simp_all
  with rx have rlow: "x / 2 \<le> r" and rhigh: "r \<le> x + x / 2 ^ 53" by linarith+
  have "pow2 (- 1022) \<le> x / 2 * 100" using xlow xpos by simp
  also have "\<dots> \<le> r * 100" using rlow by simp
  finally have ylow: "pow2 (- 1022) \<le> \<bar>r * 100\<bar>" using xpos rlow by simp
  have rpos: "0 < r" using rlow xpos by linarith
  from ylow have "\<bar>round_double (r * 100) - r * 100\<bar> \<le> \<bar>r * 100\<bar> / 2 ^ 53"
    by (rule round_double_relative_error)
  then have sy: "\<bar>round_double (r * 100) - r * 100\<bar> \<le> r * 100 / 2 ^ 53"
    using rpos by simp
  have "r * 100 / 2 ^ 53 \<le> (x + x / 2 ^ 53) * 100 / 2 ^ 53"
    using rhigh by (intro divide_right_mono mult_right_mono) simp_all
  with sy have sy': "\<bar>round_double (r * 100) - r * 100\<bar> \<le> (x + x / 2 ^ 53) * 100 / 2 ^ 53"
    by linarith
  have "\<bar>round_double (r * 100) - 100 * x\<bar>
          \<le> \<bar>round_double (r * 100) - r * 100\<bar> + 100 * \<bar>r - x\<bar>"
    by (rule two_step_error)
  also have "\<dots> \<le> (x + x / 2 ^ 53) * 100 / 2 ^ 53 + 100 * (x / 2 ^ 53)"
    using sy' rx by (intro add_mono mult_left_mono) simp_all
  also have "\<dots> \<le> 100 * x / 2 ^ 51"
    using xpos by (simp add: field_simps)
  finally show ?thesis by (simp add: r_def x_def)
qed

section \<open>Quiz scoring\<close>

text \<open>The scoring loop counts the positions that the answer list has and answers
  correctly.\<close>

lemma upt_Suc_shift: "[0..<Suc n] = 0 # map Suc [0..<n]"
  by (simp add: upt_conv_Cons map_Suc_upt del: upt_Suc)

lemma score_loop_filter:
  "score_loop i qs answers acc =
     acc + int (length (filter
       (\<lambda>j. i + j < length answers \<and> answers ! (i + j) = q_correct_answer (qs ! j))
       [0..<length qs]))"
proof (induction qs arbitrary: i acc)
  case Nil
  then show ?case by simp
next
  case (Cons q qs)
  show ?case
    by (simp only: score_loop.simps Cons.IH length_Cons upt_Suc_shift)
       (simp add: filter_map comp_def)
qed

lemma card_positions:
  "card {j. j < n \<and> P j} = length (filter P [0..<n])"
proof -
  have "set (filter P [0..<n]) = {j. j < n \<and> P j}" by auto
  moreover have "distinct (filter P [0..<n])" by simp
  ultimately show ?thesis by (metis distinct_card)
qed

lemma score_loop_count:
  "score_loop 0 qs answers 0 =
     int (card {i. i < length qs \<and> i < length answers \<and> answers ! i = q_correct_answer (qs ! i)})"
  by (simp add: score_loop_filter card_positions)

lemma score_loop_bounds:
  "0 \<le> score_loop 0 qs answers 0 \<and> score_loop 0 qs answers 0 \<le> int (length qs)"
proof -
  have "length (filter
       (\<lambda>j. j < length answers \<and> answers ! j = q_correct_answer (qs ! j))
       [0..<length qs]) \<le> length [0..<length qs]"
    by (rule length_filter_le)
  then show ?thesis by (simp add: score_loop_filter)
qed

text \<open>
  Claim C1, as amended. For an authenticated user and a competence whose row exists and
  which has \<open>N > 0\<close> stored questions, the submission succeeds; \<open>correct_answers\<close> is
  the number \<open>k\<close> of positions \<open>i < N\<close> at which the answer list has an entry equal to
  the correct index of question \<open>i\<close>, and \<open>total_questions\<close> is \<open>N\<close>. The score is the
  double-precision value of \<^verbatim>\<open>(k / N) * 100\<close>: the quotient rounded to the nearest double,
  times 100, rounded again. It is within \<open>2 ^ -45\<close> of \<open>100 k / N\<close>, and equal to
  it when no answer or every answer is correct. \<open>passed\<close> is true exactly when the
  returned score is at least the competence's \<^verbatim>\<open>success_threshold\<close>.
\<close>

theorem quiz_scoring:
  assumes "find_one (\<lambda>c. c_id c = cid) (competences d) = Some c"
    and "qs = find_all (\<lambda>q. q_competence_id q = cid) (quiz_questions d)"
    and "qs \<noteq> []"
    and "k = int (card {i. i < length qs \<and> i < length answers \<and>
                           answers ! i = q_correct_answer (qs ! i)})"
  shows "\<exists>sc d'.
           submit_quiz d ida ta tb cid answers (Some u) =
             (Inr \<lparr>score = sc, passed = (c_success_threshold c \<le> sc), correct_answers = k,
                   total_questions = int (length qs)\<rparr>, d') \<and>
           sc = round_double (round_double (of_int k / of_int (int (length qs))) * 100) \<and>
           \<bar>sc - 100 * of_int k / of_int (int (length qs))\<bar> \<le> 1 / 2 ^ 45 \<and>
           (k = 0 \<longrightarrow> sc = 0) \<and>
           (k = int (length qs) \<longrightarrow> sc = 100)"
proof -
  define sc where "sc = round_double (round_double (of_int k / of_int (int (length qs))) * 100)"
  have k: "k = score_loop 0 qs answers 0"
    by (simp add: assms(4) score_loop_count)
  have n: "0 < int (length qs)" using assms(3) by simp
  from score_loop_bounds [of qs answers] have k0: "0 \<le> k" and kn: "k \<le> int (length qs)"
    by (simp_all add: k)
  from assms(1) assms(3)
  have "\<exists>d'. submit_quiz d ida ta tb cid answers (Some u) =
             (Inr \<lparr>score = sc, passed = (c_success_threshold c \<le> sc), correct_answers = k,
                   total_questions = int (length qs)\<rparr>, d')"
    unfolding assms(2) k sc_def by (simp add: submit_quiz_success Let_def)
  moreover have "\<bar>sc - 100 * of_int k / of_int (int (length qs))\<bar> \<le> 1 / 2 ^ 45"
    unfolding sc_def using k0 kn n by (rule percentage_absolute_error)
  moreover have "sc = 0" if "k = 0"
    using that by (simp add: sc_def)
  moreover have "sc = 100" if "k = int (length qs)"
    using that n by (simp add: sc_def round_double_1 round_double_100)
  ultimately show ?thesis using sc_def by blast
qed

theorem quiz_scoring_witness:
  "fst (submit_quiz progress_db ''a1'' 10 11 ''c1'' [1, 0, 2] (Some alice)) =
     Inr \<lparr>score = 2345624805922133 / 35184372088832, passed = True, correct_answers = 2,
          total_questions = 3\<rparr> \<and>
   \<bar>2345624805922133 / 35184372088832 - 100 * 2 / (3::rat)\<bar> \<le> 1 / 2 ^ 45"
proof -
  have c: "find_one (\<lambda>c. c_id c = ''c1'') (competences progress_db) = Some competence1"
    by (simp add: find_one_def quiz_example_defs more_example_defs)
  have qs: "find_all (\<lambda>q. q_competence_id q = ''c1'') (quiz_questions progress_db) =
              [question ''q1'' ''c1'' 1, question ''q2'' ''c1'' 1, question ''q3'' ''c1'' 2]"
    by (simp add: find_all_def quiz_example_defs more_example_defs)
  then have ne: "find_all (\<lambda>q. q_competence_id q = ''c1'') (quiz_questions progress_db) \<noteq> []"
    by simp
  from quiz_scoring [OF c refl ne refl, where answers = "[1, 0, 2]" and ida = "''a1''"
         and ta = 10 and tb = 11 and u = alice]
  obtain sc k where
      run: "fst (submit_quiz progress_db ''a1'' 10 11 ''c1'' [1, 0, 2] (Some alice)) =
              Inr \<lparr>score = sc, passed = (c_success_threshold competence1 \<le> sc),
                   correct_answers = k, total_questions = 3\<rparr>"
    and err: "\<bar>sc - 100 * of_int k / 3\<bar> \<le> 1 / 2 ^ 45"
    by (auto simp: qs)
  from run have "sc = 2345624805922133 / 35184372088832" and "k = 2"
    by (simp_all add: submit_quiz_example)
  with run err show ?thesis by (simp add: competence1_def)
qed

text \<open>
  Claim C1 as stated fails: the score is not \<open>100 k / N\<close> exactly. With 11 of 20
  answers correct the score returned is \<^verbatim>\<open>55.00000000000001\<close>, not 55, and in the
  specification's own scenario (2 of 3 correct) it is the double
  \<^verbatim>\<open>66.66666666666666\<close>, not \<open>200 / 3\<close>.
\<close>

theorem quiz_score_exact_counterexample:
  "fst (submit_quiz twenty_db ''a1'' 10 11 ''c1'' (replicate 11 1) (Some alice)) =
     Inr \<lparr>score = 7740561859543041 / 140737488355328, passed = True, correct_answers = 11,
          total_questions = 20\<rparr> \<and>
   (7740561859543041 / 140737488355328 :: rat) \<noteq> 100 * 11 / 20 \<and>
   fst (submit_quiz progress_db ''a1'' 10 11 ''c1'' [1, 0, 2] (Some alice)) =
     Inr \<lparr>score = 2345624805922133 / 35184372088832, passed = True, correct_answers = 2,
          total_questions = 3\<rparr> \<and>
   (2345624805922133 / 35184372088832 :: rat) \<noteq> 100 * 2 / 3"
  by code_simp


section \<open>Dashboard\<close>

text \<open>What the dashboard returns to an authenticated user.\<close>

lemma get_dashboard_value:
  "get_dashboard d (Some u) =
     Inr \<lparr>dash_user = u,
          overall_progress =
            (if 0 < int (length (competences d))
             then round_double
                    (round_double
                       (of_int (int (length (filter (\<lambda>p. p_user_id p = u_id u \<and>
                                                        p_status p = ''completed'')
                                              (user_progress d))))
                        / of_int (int (length (competences d)))) * 100)
             else 0),
          total_competences = int (length (competences d)),
          completed_competences =
            int (length (filter (\<lambda>p. p_user_id p = u_id u \<and> p_status p = ''completed'')
                           (user_progress d))),
          in_progress_competences =
            int (length (filter (\<lambda>p. p_user_id p = u_id u \<and> p_status p = ''in_progress'')
                           (user_progress d))),
          certificates_earned =
            int (length (filter (\<lambda>c. cert_user_id c = u_id u) (certificates d))),
          progress_list = filter (\<lambda>p. p_user_id p = u_id u) (user_progress d),
          dash_certificates = filter (\<lambda>c. cert_user_id c = u_id u) (certificates d)\<rparr>"
  by (simp add: get_dashboard_def find_all_def count_documents_def int_truediv_def
        float_mul_def Let_def)

lemma get_dashboard_fields:
  "\<exists>dash. get_dashboard d (Some u) = Inr dash \<and>
          total_competences dash = int (length (competences d)) \<and>
          completed_competences dash =
            int (length (filter (\<lambda>p. p_user_id p = u_id u \<and> p_status p = ''completed'')
                           (user_progress d))) \<and>
          overall_progress dash =
            (if 0 < int (length (competences d))
             then round_double
                    (round_double
                       (of_int (int (length (filter (\<lambda>p. p_user_id p = u_id u \<and>
                                                        p_status p = ''completed'')
                                              (user_progress d))))
                        / of_int (int (length (competences d)))) * 100)
             else 0)"
  unfolding get_dashboard_value by simp

text \<open>
  Claim C8, as amended. For an authenticated user the dashboard is returned, with
  \<open>total_competences\<close> the number of competence rows and \<open>completed_competences\<close> the
  number of the user's progress rows with status \<^verbatim>\<open>completed\<close>. \<open>overall_progress\<close>
  is 0 when the total is 0, and otherwise the double-precision value of
  \<^verbatim>\<open>completed / total * 100\<close>: the quotient rounded to the nearest double, times 100,
  rounded again. That value is 0 when nothing is completed, 100 when completed equals
  total, and in general within a relative error of \<open>2 ^ -51\<close> of
  \<open>100 * completed / total\<close> (for a catalog of at most \<open>2 ^ 1022\<close> rows, where the
  quotient cannot underflow).
\<close>

theorem dashboard_overall_progress:
  assumes "n_completed = int (length (filter (\<lambda>p. p_user_id p = u_id u \<and>
                                                 p_status p = ''completed'')
                                       (user_progress d)))"
    and "n_total = int (length (competences d))"
  shows "\<exists>dash.
           get_dashboard d (Some u) = Inr dash \<and>
           total_competences dash = n_total \<and>
           completed_competences dash = n_completed \<and>
           overall_progress dash =
             (if n_total = 0 then 0
              else round_double (round_double (of_int n_completed / of_int n_total) * 100)) \<and>
           (n_completed = 0 \<longrightarrow> overall_progress dash = 0) \<and>
           (n_completed = n_total \<and> n_total \<noteq> 0 \<longrightarrow> overall_progress dash = 100) \<and>
           (0 < n_completed \<and> 0 < n_total \<and> n_total \<le> 2 ^ 1022 \<longrightarrow>
              \<bar>overall_progress dash - 100 * of_int n_completed / of_int n_total\<bar>
                \<le> (100 * of_int n_completed / of_int n_total) / 2 ^ 51)"
proof -
  define pct where
    "pct = (if n_total = 0 then 0
            else round_double (round_double (of_int n_completed / of_int n_total) * 100))"
  have total0: "0 \<le> n_total" by (simp add: assms(2))
  have pct: "pct = (if 0 < n_total
                    then round_double (round_double (of_int n_completed / of_int n_total) * 100)
                    else 0)"
    using total0 by (simp add: pct_def)
  from get_dashboard_fields [of d u]
  obtain dash where dash: "get_dashboard d (Some u) = Inr dash"
    and t: "total_competences dash = n_total"
    and c: "completed_competences dash = n_completed"
    and p: "overall_progress dash = pct"
    unfolding pct assms by blast
  have v: "overall_progress dash =
             (if n_total = 0 then 0
              else round_double (round_double (of_int n_completed / of_int n_total) * 100))"
    by (simp only: p pct_def)
  have z: "n_completed = 0 \<longrightarrow> overall_progress dash = 0"
    by (simp add: p pct_def)
  have f: "n_completed = n_total \<and> n_total \<noteq> 0 \<longrightarrow> overall_progress dash = 100"
    by (simp add: p pct_def round_double_1 round_double_100)
  have e: "0 < n_completed \<and> 0 < n_total \<and> n_total \<le> 2 ^ 1022 \<longrightarrow>
              \<bar>overall_progress dash - 100 * of_int n_completed / of_int n_total\<bar>
                \<le> (100 * of_int n_completed / of_int n_total) / 2 ^ 51"
  proof
    assume h: "0 < n_completed \<and> 0 < n_total \<and> n_total \<le> 2 ^ 1022"
    then have h1: "0 < n_completed" and h2: "0 < n_total" and h3: "n_total \<le> 2 ^ 1022"
      by blast+
    have "overall_progress dash =
            round_double (round_double (of_int n_completed / of_int n_total) * 100)"
      using h2 by (simp only: p pct if_True)
    then show "\<bar>overall_progress dash - 100 * of_int n_completed / of_int n_total\<bar>
                \<le> (100 * of_int n_completed / of_int n_total) / 2 ^ 51"
      using percentage_relative_error [OF h1 h2 h3] by (simp only:)
  qed
  from dash t c v z f e show ?thesis by (intro exI [of _ dash] conjI)
qed

lemma get_dashboard_example:
  "get_dashboard catalog_db (Some alice) =
     Inr \<lparr>dash_user = alice, overall_progress = 7740561859543041 / 140737488355328,
          total_competences = 20, completed_competences = 11, in_progress_competences = 1,
          certificates_earned = 0,
          progress_list = replicate 11 completed_progress @ [alice_progress],
          dash_certificates = []\<rparr>"
  by code_simp

theorem dashboard_overall_progress_witness:
  "get_dashboard catalog_db (Some alice) =
     Inr \<lparr>dash_user = alice, overall_progress = 7740561859543041 / 140737488355328,
          total_competences = 20, completed_competences = 11, in_progress_competences = 1,
          certificates_earned = 0,
          progress_list = replicate 11 completed_progress @ [alice_progress],
          dash_certificates = []\<rparr> \<and>
   \<bar>7740561859543041 / 140737488355328 - 100 * 11 / (20::rat)\<bar> \<le> (100 * 11 / 20) / 2 ^ 51"
proof -
  have c: "11 = int (length (filter (\<lambda>p. p_user_id p = u_id alice \<and>
                                          p_status p = ''completed'')
                                (user_progress catalog_db)))"
    by code_simp
  have t: "20 = int (length (competences catalog_db))"
    by code_simp
  from dashboard_overall_progress [OF c t]
  obtain dash where run: "get_dashboard catalog_db (Some alice) = Inr dash"
    and err: "(0::int) < 11 \<and> (0::int) < 20 \<and> (20::int) \<le> 2 ^ 1022 \<longrightarrow>
              \<bar>overall_progress dash - 100 * of_int 11 / of_int 20\<bar>
                \<le> (100 * of_int 11 / of_int 20) / 2 ^ 51"
    by blast
  have small: "(20::int) \<le> 2 ^ 1022"
  proof -
    have "(20::int) \<le> 2 ^ 5" by simp
    also have "\<dots> \<le> 2 ^ 1022" by (rule power_increasing) simp_all
    finally show ?thesis .
  qed
  from run [unfolded get_dashboard_example, simplified, symmetric]
  have "overall_progress dash = 7740561859543041 / 140737488355328"
    by simp
  with err small
  have "\<bar>7740561859543041 / 140737488355328 - 100 * of_int 11 / (of_int 20 :: rat)\<bar>
          \<le> (100 * of_int 11 / of_int 20) / 2 ^ 51"
    by simp
  then have "\<bar>7740561859543041 / 140737488355328 - 100 * 11 / (20::rat)\<bar>
               \<le> (100 * 11 / 20) / 2 ^ 51"
    by simp
  with get_dashboard_example show ?thesis by simp
qed

text \<open>
  Claim C8 as stated fails: with 11 of 20 competences completed the dashboard reports
  \<^verbatim>\<open>55.00000000000001\<close>, not 55.
\<close>

theorem dashboard_progress_exact_counterexample:
  "get_dashboard catalog_db (Some alice) =
     Inr \<lparr>dash_user = alice, overall_progress = 7740561859543041 / 140737488355328,
          total_competences = 20, completed_competences = 11, in_progress_competences = 1,
          certificates_earned = 0,
          progress_list = replicate 11 completed_progress @ [alice_progress],
          dash_certificates = []\<rparr> \<and>
   (7740561859543041 / 140737488355328 :: rat) \<noteq> 100 * 11 / 20"
  by code_simp


end
